theory Spec2Isabelle
  imports Main
begin

section \<open>Python values\<close>

text \<open>
  The values that travel through the client are the ones \<open>json.loads\<close> produces and
  \<open>json.dumps\<close> accepts. \<open>JNull\<close> is Python's \<open>None\<close>, \<open>JObj\<close> is a \<open>dict\<close> with
  string keys, kept as an association list in insertion order, \<open>JArr\<close> is a \<open>list\<close>.
  Numbers are integers: the clients only ever test a number for zero. A \<open>char\<close> stands
  for a code point below 256.
\<close>

datatype json =
    JNull
  | JBool bool
  | JNum int
  | JStr string
  | JArr "json list"
  | JObj "(string \<times> json) list"

text \<open>Truthiness, as an \<open>if\<close> or an \<open>and\<close> tests a value.\<close>

fun truthy :: "json \<Rightarrow> bool" where
  "truthy JNull = False"
| "truthy (JBool b) = b"
| "truthy (JNum n) = (n \<noteq> 0)"
| "truthy (JStr s) = (s \<noteq> [])"
| "truthy (JArr xs) = (xs \<noteq> [])"
| "truthy (JObj kvs) = (kvs \<noteq> [])"

fun isinstance_dict :: "json \<Rightarrow> bool" where
  "isinstance_dict (JObj kvs) = True"
| "isinstance_dict _ = False"

text \<open>\<open>needle in haystack\<close> on two \<open>str\<close> values: a contiguous occurrence.\<close>

fun starts_with :: "string \<Rightarrow> string \<Rightarrow> bool" where
  "starts_with [] s = True"
| "starts_with (p # ps) [] = False"
| "starts_with (p # ps) (c # cs) = (p = c \<and> starts_with ps cs)"

fun str_contains :: "string \<Rightarrow> string \<Rightarrow> bool" where
  "str_contains p [] = (p = [])"
| "str_contains p (c # cs) = (starts_with p (c # cs) \<or> str_contains p cs)"

subsection \<open>Exceptions\<close>

text \<open>
  The exception classes of the three client modules. \<open>HPKVException\<close> is the base
  class; the seven subclasses exist only in \<open>sdk/python/src/hpkv_rest_client\<close>.
\<close>

datatype hpkv_kind =
    HPKVException
  | HPKVBadRequestError
  | HPKVUnauthorizedError
  | HPKVForbiddenError
  | HPKVNotFoundError
  | HPKVConflictError
  | HPKVRateLimitError
  | HPKVInternalError

record hpkv_exception =
  kind :: hpkv_kind
  message :: json
  exc_status_code :: int
  response_data :: json

datatype error =
    ValueError string
  | TypeError
  | KeyError
  | JSONDecodeError
  | HPKV hpkv_exception

text \<open>\<open>k in d\<close> and \<open>d[k]\<close> for a string \<open>k\<close>, on any decoded value \<open>d\<close>.\<close>

fun py_in :: "string \<Rightarrow> json \<Rightarrow> error + bool" where
  "py_in k (JObj kvs) = Inr (k \<in> set (map fst kvs))"
| "py_in k (JArr xs) = Inr (JStr k \<in> set xs)"
| "py_in k (JStr s) = Inr (str_contains k s)"
| "py_in k JNull = Inl TypeError"
| "py_in k (JBool b) = Inl TypeError"
| "py_in k (JNum n) = Inl TypeError"

fun py_getitem :: "json \<Rightarrow> string \<Rightarrow> error + json" where
  "py_getitem (JObj kvs) k = (case map_of kvs k of Some v \<Rightarrow> Inr v | None \<Rightarrow> Inl KeyError)"
| "py_getitem _ k = Inl TypeError"

subsection \<open>Decimal text of an integer\<close>

definition digit_char :: "nat \<Rightarrow> char" where
  "digit_char d = char_of (48 + d)"

fun str_nat :: "nat \<Rightarrow> string" where
  "str_nat n = (if n < 10 then [digit_char n] else str_nat (n div 10) @ [digit_char (n mod 10)])"

declare str_nat.simps [simp del]

definition str_int :: "int \<Rightarrow> string" where
  "str_int i = (if i < 0 then CHR ''-'' # str_nat (nat (- i)) else str_nat (nat i))"

section \<open>Responses\<close>

text \<open>
  What the transport hands back. For \<open>requests.Response\<close>: the flag \<open>ok\<close>, the
  \<open>status_code\<close>, the body \<open>text\<close> (the field \<open>resp_text\<close>), and what calling
  \<open>json()\<close> gives, \<open>None\<close> when the call raises \<open>JSONDecodeError\<close>. For \<open>aiohttp.ClientResponse\<close>: \<open>status\<close>,
  \<open>content_length\<close> (absent when the transport does not know it) and the same for
  \<open>json()\<close>.
\<close>

record response =
  ok :: bool
  status_code :: int
  resp_text :: string
  json_call :: "json option"

record async_response =
  status :: int
  content_length :: "int option"
  ajson_call :: "json option"

section \<open>Error handling\<close>

definition http_error_message :: "int \<Rightarrow> json" where
  "http_error_message s = JStr (''HTTP error '' @ str_int s)"

text \<open>
  The message of all three \<open>_handle_errors\<close>:
  \<^verbatim>\<open>if error_data and "error" in error_data: message = error_data["error"]\<close>
  \<^verbatim>\<open>else: message = f"HTTP error {status}"\<close>
\<close>

definition derive_message :: "int \<Rightarrow> json \<Rightarrow> error + json" where
  "derive_message s error_data =
     (if truthy error_data then
        (case py_in ''error'' error_data of
           Inl e \<Rightarrow> Inl e
         | Inr b \<Rightarrow> if b then py_getitem error_data ''error'' else Inr (http_error_message s))
      else Inr (http_error_message s))"

text \<open>The body read in the blocking clients: decoded only if the text is not empty.\<close>

definition read_error_data :: "response \<Rightarrow> json" where
  "read_error_data r =
     (if resp_text r \<noteq> [] then (case json_call r of Some d \<Rightarrow> d | None \<Rightarrow> JNull) else JNull)"

text \<open>The body read in the non-blocking client: decoded only under a positive length.\<close>

definition async_read_error_data :: "async_response \<Rightarrow> json" where
  "async_read_error_data r =
     (case content_length r of
        None \<Rightarrow> JNull
      | Some n \<Rightarrow> if n \<noteq> 0 \<and> n > 0 then (case ajson_call r of Some d \<Rightarrow> d | None \<Rightarrow> JNull)
                  else JNull)"

text \<open>The \<open>if\<close>/\<open>elif\<close> chain of the SDK's \<open>_handle_errors\<close>.\<close>

definition classify :: "int \<Rightarrow> hpkv_kind" where
  "classify s =
     (if s = 400 then HPKVBadRequestError
      else if s = 401 then HPKVUnauthorizedError
      else if s = 403 then HPKVForbiddenError
      else if s = 404 then HPKVNotFoundError
      else if s = 409 then HPKVConflictError
      else if s = 429 then HPKVRateLimitError
      else if s \<ge> 500 then HPKVInternalError
      else HPKVException)"

text \<open>\<open>HPKVClient._handle_errors\<close> of \<open>sdk/python/src/hpkv_rest_client/hpkv_client.py\<close>.\<close>

definition sdk_handle_errors :: "response \<Rightarrow> error + unit" where
  "sdk_handle_errors r =
     (if \<not> ok r then
        (let error_data = read_error_data r in
         case derive_message (status_code r) error_data of
           Inl e \<Rightarrow> Inl e
         | Inr m \<Rightarrow> Inl (HPKV \<lparr>kind = classify (status_code r), message = m,
                              exc_status_code = status_code r, response_data = error_data\<rparr>))
      else Inr ())"

text \<open>\<open>HPKVClient._handle_errors\<close> of \<open>python/hpkv_client.py\<close>.\<close>

definition py_handle_errors :: "response \<Rightarrow> error + unit" where
  "py_handle_errors r =
     (if \<not> ok r then
        (let error_data = read_error_data r in
         case derive_message (status_code r) error_data of
           Inl e \<Rightarrow> Inl e
         | Inr m \<Rightarrow> Inl (HPKV \<lparr>kind = HPKVException, message = m,
                              exc_status_code = status_code r, response_data = error_data\<rparr>))
      else Inr ())"

text \<open>\<open>AsyncHPKVClient._handle_errors\<close> of \<open>python/async_hpkv_client.py\<close>.\<close>

definition async_handle_errors :: "async_response \<Rightarrow> error + unit" where
  "async_handle_errors r =
     (if status r \<ge> 400 then
        (let error_data = async_read_error_data r in
         case derive_message (status r) error_data of
           Inl e \<Rightarrow> Inl e
         | Inr m \<Rightarrow> Inl (HPKV \<lparr>kind = HPKVException, message = m,
                              exc_status_code = status r, response_data = error_data\<rparr>))
      else Inr ())"

section \<open>Request building\<close>

subsection \<open>\<open>urllib.parse.quote\<close>\<close>

text \<open>
  \<open>quote(key)\<close> with its default \<open>safe='/'\<close>: the key is encoded as UTF-8, letters,
  digits and \<open>_.-~\<close> and the safe characters stay, every other byte becomes \<open>%XX\<close> in
  upper-case hexadecimal.
\<close>

definition hex_upper :: "nat \<Rightarrow> char" where
  "hex_upper d = (if d < 10 then char_of (48 + d) else char_of (55 + d))"

definition utf8 :: "char \<Rightarrow> nat list" where
  "utf8 c = (let n = (of_char c :: nat) in
             if n < 128 then [n] else [192 + n div 64, 128 + n mod 64])"

definition always_safe :: string where
  "always_safe =
     ''ABCDEFGHIJKLMNOPQRSTUVWXYZabcdefghijklmnopqrstuvwxyz0123456789_.-~''"

definition quote_byte :: "string \<Rightarrow> nat \<Rightarrow> string" where
  "quote_byte safe b =
     (if b < 128 \<and> (char_of b \<in> set always_safe \<or> char_of b \<in> set safe) then [char_of b]
      else [CHR ''%'', hex_upper (b div 16), hex_upper (b mod 16)])"

definition quote :: "string \<Rightarrow> string" where
  "quote s = concat (map (quote_byte ''/'') (concat (map utf8 s)))"

subsection \<open>\<open>json.dumps\<close>\<close>

text \<open>
  \<open>json.dumps(value)\<close> with its defaults: separators \<open>", "\<close> and \<open>": "\<close>, and
  \<open>ensure_ascii\<close>, under which a string keeps the characters from the space to the
  tilde other than the quote and the backslash, and escapes the rest.
\<close>

definition hex_lower :: "nat \<Rightarrow> char" where
  "hex_lower d = (if d < 10 then char_of (48 + d) else char_of (87 + d))"

definition escape_char :: "char \<Rightarrow> string" where
  "escape_char c =
     (let n = (of_char c :: nat) in
      if n = 92 then [CHR 0x5C, CHR 0x5C]
      else if n = 34 then [CHR 0x5C, CHR 0x22]
      else if n = 8 then [CHR 0x5C, CHR ''b'']
      else if n = 12 then [CHR 0x5C, CHR ''f'']
      else if n = 10 then [CHR 0x5C, CHR ''n'']
      else if n = 13 then [CHR 0x5C, CHR ''r'']
      else if n = 9 then [CHR 0x5C, CHR ''t'']
      else if 32 \<le> n \<and> n \<le> 126 then [c]
      else [CHR 0x5C, CHR ''u'', CHR ''0'', CHR ''0'', hex_lower (n div 16), hex_lower (n mod 16)])"

definition encode_str :: "string \<Rightarrow> string" where
  "encode_str s = CHR 0x22 # concat (map escape_char s) @ [CHR 0x22]"

fun dumps :: "json \<Rightarrow> string"
  and dumps_list :: "json list \<Rightarrow> string"
  and dumps_items :: "(string \<times> json) list \<Rightarrow> string" where
  "dumps JNull = ''null''"
| "dumps (JBool b) = (if b then ''true'' else ''false'')"
| "dumps (JNum n) = str_int n"
| "dumps (JStr s) = encode_str s"
| "dumps (JArr xs) = ''['' @ dumps_list xs @ '']''"
| "dumps (JObj kvs) = ''{'' @ dumps_items kvs @ ''}''"
| "dumps_list [] = []"
| "dumps_list [x] = dumps x"
| "dumps_list (x # y # ys) = dumps x @ '', '' @ dumps_list (y # ys)"
| "dumps_items [] = []"
| "dumps_items [(k, v)] = encode_str k @ '': '' @ dumps v"
| "dumps_items ((k, v) # kv # kvs) = encode_str k @ '': '' @ dumps v @ '', '' @ dumps_items (kv # kvs)"

text \<open>
  The value field of \<open>set\<close>:
  \<^verbatim>\<open>if not isinstance(value, str): value = json.dumps(value)\<close>
\<close>

definition wire_value :: "json \<Rightarrow> string" where
  "wire_value v = (case v of JStr s \<Rightarrow> s | _ \<Rightarrow> dumps v)"

subsection \<open>Requests\<close>

datatype http_method = GET | POST | DELETE

record request =
  http_method :: http_method
  url :: string
  req_headers :: "(string \<times> string) list"
  json_payload :: "json option"
  params :: "json option"

text \<open>The configuration the three constructors store.\<close>

record client =
  base_url :: string
  api_key :: string
  headers :: "(string \<times> string) list"

text \<open>The five calls a caller can make on a client.\<close>

datatype op =
    Set string json bool
  | Get string
  | Delete string
  | Increment string int
  | Query string string int

text \<open>
  The request each method builds; the three modules build the same one. \<open>Set\<close>:
  \<open>post(f"{base_url}/record", json={key: quote(key), value, partialUpdate})\<close>,
  \<open>Get\<close> and \<open>Delete\<close>: \<open>f"{base_url}/record/{quote(key)}"\<close>, \<open>Increment\<close>:
  \<open>post(f"{base_url}/record/atomic", json={key: quote(key), increment})\<close>, \<open>Query\<close>:
  \<open>get(f"{base_url}/records", params={startKey, endKey, limit})\<close>.
\<close>

fun build_request :: "string \<Rightarrow> (string \<times> string) list \<Rightarrow> op \<Rightarrow> request" where
  "build_request base hs (Set key v partial_update) =
     \<lparr>http_method = POST, url = base @ ''/record'', req_headers = hs,
      json_payload = Some (JObj [(''key'', JStr (quote key)), (''value'', JStr (wire_value v)),
                                 (''partialUpdate'', JBool partial_update)]),
      params = None\<rparr>"
| "build_request base hs (Get key) =
     \<lparr>http_method = GET, url = base @ ''/record/'' @ quote key, req_headers = hs,
      json_payload = None, params = None\<rparr>"
| "build_request base hs (Delete key) =
     \<lparr>http_method = DELETE, url = base @ ''/record/'' @ quote key, req_headers = hs,
      json_payload = None, params = None\<rparr>"
| "build_request base hs (Increment key increment) =
     \<lparr>http_method = POST, url = base @ ''/record/atomic'', req_headers = hs,
      json_payload = Some (JObj [(''key'', JStr (quote key)), (''increment'', JNum increment)]),
      params = None\<rparr>"
| "build_request base hs (Query start_key end_key limit) =
     \<lparr>http_method = GET, url = base @ ''/records'', req_headers = hs,
      json_payload = None,
      params = Some (JObj [(''startKey'', JStr (quote start_key)),
                           (''endKey'', JStr (quote end_key)), (''limit'', JNum limit)])\<rparr>"

section \<open>The blocking clients\<close>

text \<open>
  A blocking call runs against the transport \<open>send\<close> (\<open>requests.get\<close>, \<open>post\<close>,
  \<open>delete\<close>) and a state: the client object and the requests handed to the transport
  so far. It returns what the caller gets (\<open>Inl\<close>: the exception raised) and the state
  afterwards.
\<close>

type_synonym blocking_state = "client \<times> request list"

text \<open>\<open>not x\<close> on an argument that is a string or \<open>None\<close>.\<close>

definition not_given :: "string option \<Rightarrow> bool" where
  "not_given x = (case x of None \<Rightarrow> True | Some s \<Rightarrow> s = [])"

text \<open>The string an argument holds; \<open>None\<close> never gets past \<open>not x\<close>.\<close>

definition given :: "string option \<Rightarrow> string" where
  "given x = (case x of None \<Rightarrow> [] | Some s \<Rightarrow> s)"

text \<open>\<open>HPKVClient.__init__\<close>, the same in the SDK and in \<open>python/hpkv_client.py\<close>.\<close>

definition sdk_init :: "string option \<Rightarrow> string option \<Rightarrow> request list \<Rightarrow> (error + client) \<times> request list" where
  "sdk_init b k net =
     (if not_given b then (Inl (ValueError ''base_url is required''), net)
      else if not_given k then (Inl (ValueError ''api_key is required''), net)
      else (Inr \<lparr>base_url = given b, api_key = given k,
                 headers = [(''Content-Type'', ''application/json''), (''x-api-key'', given k)]\<rparr>, net))"

definition py_init :: "string option \<Rightarrow> string option \<Rightarrow> request list \<Rightarrow> (error + client) \<times> request list" where
  "py_init b k net =
     (if not_given b then (Inl (ValueError ''base_url is required''), net)
      else if not_given k then (Inl (ValueError ''api_key is required''), net)
      else (Inr \<lparr>base_url = given b, api_key = given k,
                 headers = [(''Content-Type'', ''application/json''), (''x-api-key'', given k)]\<rparr>, net))"

text \<open>The keys of a \<open>dict\<close>, for \<open>k not in result\<close> behind \<open>isinstance(result, dict)\<close>.\<close>

fun dict_keys :: "json \<Rightarrow> string list" where
  "dict_keys (JObj kvs) = map fst kvs"
| "dict_keys _ = []"

text \<open>
  The tail of every SDK method, \<open>required\<close> being the fields it asks for:
  \<^verbatim>\<open>self._handle_errors(response); result = response.json()\<close>
  \<^verbatim>\<open>if not isinstance(result, dict) or "f" not in result ...: raise HPKVInternalError(...)\<close>
  \<^verbatim>\<open>return result\<close>
\<close>

definition sdk_result :: "string list \<Rightarrow> response \<Rightarrow> error + json" where
  "sdk_result required response =
     (case sdk_handle_errors response of
        Inl e \<Rightarrow> Inl e
      | Inr u \<Rightarrow>
          (case json_call response of
             None \<Rightarrow> Inl JSONDecodeError
           | Some result \<Rightarrow>
               if \<not> isinstance_dict result \<or> list_ex (\<lambda>f. f \<notin> set (dict_keys result)) required
               then Inl (HPKV \<lparr>kind = HPKVInternalError,
                               message = JStr ''Invalid response format from server'',
                               exc_status_code = status_code response, response_data = result\<rparr>)
               else Inr result))"

text \<open>The tail of every method of \<open>python/hpkv_client.py\<close>: no check of the shape.\<close>

definition py_result :: "response \<Rightarrow> error + json" where
  "py_result response =
     (case py_handle_errors response of
        Inl e \<Rightarrow> Inl e
      | Inr u \<Rightarrow> (case json_call response of None \<Rightarrow> Inl JSONDecodeError | Some result \<Rightarrow> Inr result))"

fun required_fields :: "op \<Rightarrow> string list" where
  "required_fields (Set key v partial_update) = [''success'']"
| "required_fields (Get key) = [''key'', ''value'']"
| "required_fields (Delete key) = [''success'']"
| "required_fields (Increment key increment) = [''result'']"
| "required_fields (Query start_key end_key limit) = [''records'', ''count'']"

definition sdk_perform :: "(request \<Rightarrow> response) \<Rightarrow> op \<Rightarrow> blocking_state \<Rightarrow> (error + json) \<times> blocking_state" where
  "sdk_perform send call st =
     (let self = fst st;
          req = build_request (base_url self) (headers self) call;
          response = send req
      in (sdk_result (required_fields call) response, self, snd st @ [req]))"

definition py_perform :: "(request \<Rightarrow> response) \<Rightarrow> op \<Rightarrow> blocking_state \<Rightarrow> (error + json) \<times> blocking_state" where
  "py_perform send call st =
     (let self = fst st;
          req = build_request (base_url self) (headers self) call;
          response = send req
      in (py_result response, self, snd st @ [req]))"

section \<open>The non-blocking client\<close>

text \<open>
  \<open>AsyncHPKVClient\<close> adds a \<open>session\<close> field. The world of a non-blocking call: how
  many \<open>aiohttp.ClientSession\<close> objects have been constructed (the next one gets that
  number as its name), the sessions closed, and the requests sent, each with the session
  that sent it.
\<close>

record async_client = client +
  session :: "nat option"

record world =
  created :: nat
  closed :: "nat list"
  sent :: "(nat \<times> request) list"

type_synonym async_state = "async_client \<times> world"

definition async_init :: "string option \<Rightarrow> string option \<Rightarrow> world \<Rightarrow> (error + async_client) \<times> world" where
  "async_init b k w =
     (if not_given b then (Inl (ValueError ''base_url is required''), w)
      else if not_given k then (Inl (ValueError ''api_key is required''), w)
      else (Inr \<lparr>base_url = given b, api_key = given k,
                 headers = [(''Content-Type'', ''application/json''), (''x-api-key'', given k)],
                 session = None\<rparr>, w))"

text \<open>\<open>__aenter__\<close>: \<open>self.session = aiohttp.ClientSession()\<close>.\<close>

definition aenter :: "async_state \<Rightarrow> async_state" where
  "aenter st =
     (let self = fst st; w = snd st
      in (self\<lparr>session := Some (created w)\<rparr>, w\<lparr>created := Suc (created w)\<rparr>))"

text \<open>\<open>__aexit__\<close>: \<open>if self.session: await self.session.close()\<close>.\<close>

definition aexit :: "async_state \<Rightarrow> async_state" where
  "aexit st =
     (let self = fst st; w = snd st
      in case session self of
           None \<Rightarrow> (self, w)
         | Some s \<Rightarrow> (self, w\<lparr>closed := closed w @ [s]\<rparr>))"

text \<open>\<open>_get_session\<close>: the session of the client, a new one if there is none.\<close>

definition get_session :: "async_state \<Rightarrow> nat \<times> async_state" where
  "get_session st =
     (let self = fst st; w = snd st
      in case session self of
           None \<Rightarrow> (created w, self\<lparr>session := Some (created w)\<rparr>, w\<lparr>created := Suc (created w)\<rparr>)
         | Some s \<Rightarrow> (s, self, w))"

definition async_result :: "async_response \<Rightarrow> error + json" where
  "async_result response =
     (case async_handle_errors response of
        Inl e \<Rightarrow> Inl e
      | Inr u \<Rightarrow> (case ajson_call response of None \<Rightarrow> Inl JSONDecodeError | Some result \<Rightarrow> Inr result))"

definition async_perform :: "(request \<Rightarrow> async_response) \<Rightarrow> op \<Rightarrow> async_state \<Rightarrow> (error + json) \<times> async_state" where
  "async_perform send call st =
     (let req = build_request (base_url (fst st)) (headers (fst st)) call;
          got = get_session st;
          s = fst got; self = fst (snd got); w = snd (snd got);
          response = send req
      in (async_result response, self, w\<lparr>sent := sent w @ [(s, req)]\<rparr>))"

text \<open>
  \<open>async with client: body\<close>, the body a sequence of calls: \<open>__aenter__\<close>, the calls up
  to the first one that raises, and \<open>__aexit__\<close> whether one raised or not.
\<close>

fun async_body :: "(request \<Rightarrow> async_response) \<Rightarrow> op list \<Rightarrow> async_state \<Rightarrow> (error + json list) \<times> async_state" where
  "async_body send [] st = (Inr [], st)"
| "async_body send (call # calls) st =
     (case async_perform send call st of
        (Inl e, st') \<Rightarrow> (Inl e, st')
      | (Inr v, st') \<Rightarrow>
          (case async_body send calls st' of
             (Inl e, st'') \<Rightarrow> (Inl e, st'')
           | (Inr vs, st'') \<Rightarrow> (Inr (v # vs), st'')))"

definition async_with :: "(request \<Rightarrow> async_response) \<Rightarrow> op list \<Rightarrow> async_state \<Rightarrow> (error + json list) \<times> async_state" where
  "async_with send calls st =
     (let run = async_body send calls (aenter st)
      in (fst run, aexit (snd run)))"

text \<open>The sessions constructed and not closed.\<close>

definition unreleased :: "world \<Rightarrow> nat list" where
  "unreleased w = filter (\<lambda>s. s \<notin> set (closed w)) [0..<created w]"

section \<open>Notions the properties are stated with\<close>

text \<open>The response the transport gives to the request of a call.\<close>

definition response_to :: "(request \<Rightarrow> 'r) \<Rightarrow> op \<Rightarrow> ('z client_scheme \<times> 'w) \<Rightarrow> 'r" where
  "response_to send call st = send (build_request (base_url (fst st)) (headers (fst st)) call)"








section \<open>Auxiliary facts\<close>






text \<open>What the caller gets depends on the response only.\<close>

lemma sdk_perform_fst:
  "fst (sdk_perform send call st) = sdk_result (required_fields call) (response_to send call st)"
  by (simp add: sdk_perform_def response_to_def Let_def)

lemma py_perform_fst: "fst (py_perform send call st) = py_result (response_to send call st)"
  by (simp add: py_perform_def response_to_def Let_def)

lemma async_perform_fst:
  "fst (async_perform send call st) = async_result (response_to send call st)"
  by (simp add: async_perform_def response_to_def Let_def)

text \<open>On a failing status every method ends inside \<open>_handle_errors\<close>.\<close>

lemma sdk_result_failing:
  "\<not> ok r \<Longrightarrow> sdk_result required r =
     (case derive_message (status_code r) (read_error_data r) of
        Inl e \<Rightarrow> Inl e
      | Inr m \<Rightarrow> Inl (HPKV \<lparr>kind = classify (status_code r), message = m,
                           exc_status_code = status_code r, response_data = read_error_data r\<rparr>))"
  by (simp add: sdk_result_def sdk_handle_errors_def Let_def split: sum.splits)



text \<open>On a success status the SDK returns the body or rejects its shape.\<close>

lemma sdk_result_ok:
  "ok r \<Longrightarrow> json_call r = Some b \<Longrightarrow> sdk_result required r =
     (if isinstance_dict b \<and> list_all (\<lambda>f. f \<in> set (dict_keys b)) required then Inr b
      else Inl (HPKV \<lparr>kind = HPKVInternalError,
                      message = JStr ''Invalid response format from server'',
                      exc_status_code = status_code r, response_data = b\<rparr>))"
  by (auto simp: sdk_result_def sdk_handle_errors_def list_all_iff list_ex_iff)









text \<open>
  While the client holds a session, a call neither constructs nor closes one; so a scope
  entered when no session is open leaves none open, however its body ends.
\<close>

lemma async_perform_keeps_session:
  assumes "session (fst st) = Some s"
  shows "session (fst (snd (async_perform send call st))) = Some s"
    and "created (snd (snd (async_perform send call st))) = created (snd st)"
    and "closed (snd (snd (async_perform send call st))) = closed (snd st)"
  using assms by (simp_all add: async_perform_def get_session_def Let_def)

lemma async_body_keeps_session:
  "session (fst st) = Some s \<Longrightarrow>
     session (fst (snd (async_body send calls st))) = Some s
     \<and> created (snd (snd (async_body send calls st))) = created (snd st)
     \<and> closed (snd (snd (async_body send calls st))) = closed (snd st)"
proof (induction calls arbitrary: st)
  case Nil
  then show ?case by simp
next
  case (Cons call calls)
  obtain res st' where p: "async_perform send call st = (res, st')"
    by (cases "async_perform send call st")
  with Cons.prems async_perform_keeps_session [of st s send call]
  have keep: "session (fst st') = Some s" "created (snd st') = created (snd st)"
    "closed (snd st') = closed (snd st)"
    by simp_all
  show ?case
  proof (cases res)
    case (Inl e)
    with p keep show ?thesis by simp
  next
    case (Inr v)
    obtain res' st'' where b: "async_body send calls st' = (res', st'')"
      by (cases "async_body send calls st'")
    with Cons.IH [OF keep(1)] keep have "session (fst st'') = Some s"
      "created (snd st'') = created (snd st)" "closed (snd st'') = closed (snd st)"
      by simp_all
    with p b Inr show ?thesis by (cases res') simp_all
  qed
qed

lemma async_with_releases:
  assumes "unreleased (snd st) = []"
  shows "unreleased (snd (snd (async_with send calls st))) = []"
proof -
  let ?n = "created (snd st)"
  let ?st1 = "aenter st"
  have s1: "session (fst ?st1) = Some ?n" and c1: "created (snd ?st1) = Suc ?n"
    and k1: "closed (snd ?st1) = closed (snd st)"
    by (simp_all add: aenter_def Let_def)
  let ?st2 = "snd (async_body send calls ?st1)"
  from async_body_keeps_session [OF s1, of send calls]
  have s2: "session (fst ?st2) = Some ?n" and c2: "created (snd ?st2) = Suc ?n"
    and k2: "closed (snd ?st2) = closed (snd st)"
    using c1 k1 by simp_all
  have w3: "created (snd (aexit ?st2)) = Suc ?n"
    "closed (snd (aexit ?st2)) = closed (snd st) @ [?n]"
    using s2 c2 k2 by (simp_all add: aexit_def Let_def)
  from assms have "\<forall>i < ?n. i \<in> set (closed (snd st))"
    by (auto simp: unreleased_def filter_empty_conv)
  then have "unreleased (snd (aexit ?st2)) = []"
    unfolding unreleased_def w3 by (auto simp: filter_empty_conv less_Suc_eq)
  then show ?thesis by (simp add: async_with_def Let_def)
qed

section \<open>Properties\<close>




text \<open>
  The client of \<open>python/hpkv_client.py\<close> hands back an empty object as the result of
  \<open>set\<close>: it has no check of the shape.
\<close>

theorem py_set_returns_unvalidated_body:
  "fst (py_perform
      (\<lambda>req. \<lparr>ok = True, status_code = 200, resp_text = ''{}'', json_call = Some (JObj [])\<rparr>)
      (Set ''k'' (JStr ''v'') False)
      (\<lparr>base_url = ''http://h'', api_key = ''s'', headers = []\<rparr>, [])) = Inr (JObj [])"
  by (simp add: py_perform_fst response_to_def py_result_def py_handle_errors_def)

text \<open>
  C2, as the code has it. In the SDK client, for every call, a response with a success
  status whose body decodes to \<open>b\<close> is returned unchanged if \<open>b\<close> is an object with
  all the fields the call requires (set and delete: success; get: key and value;
  increment: result; query: records and count), and otherwise raises the internal error
  \<open>Invalid response format from server\<close> with the status code and \<open>b\<close>. The two clients
  under \<open>python/\<close> return the decoded body of a successful response as it is.
\<close>

theorem sdk_shape_validation:
  assumes "ok (response_to send call st)"
    and "json_call (response_to send call st) = Some b"
  shows "fst (sdk_perform send call st) =
           (if isinstance_dict b \<and> list_all (\<lambda>f. f \<in> set (dict_keys b)) (required_fields call)
            then Inr b
            else Inl (HPKV \<lparr>kind = HPKVInternalError,
                            message = JStr ''Invalid response format from server'',
                            exc_status_code = status_code (response_to send call st),
                            response_data = b\<rparr>))
         \<and> required_fields (Set key v partial_update) = [''success'']
         \<and> required_fields (Get key) = [''key'', ''value'']
         \<and> required_fields (Delete key) = [''success'']
         \<and> required_fields (Increment key increment) = [''result'']
         \<and> required_fields (Query start_key end_key limit) = [''records'', ''count'']
         \<and> fst (py_perform send call st) = Inr b
         \<and> (400 > status (response_to asend call ast)
              \<and> ajson_call (response_to asend call ast) = Some b'
            \<longrightarrow> fst (async_perform asend call ast) = Inr b')"
  using assms
  by (simp add: sdk_perform_fst py_perform_fst async_perform_fst sdk_result_ok
      py_result_def py_handle_errors_def async_result_def async_handle_errors_def)

theorem sdk_shape_validation_witness:
  "fst (sdk_perform
      (\<lambda>req. \<lparr>ok = True, status_code = 200, resp_text = ''{...}'',
               json_call = Some (JObj [(''key'', JStr ''k'')])\<rparr>)
      (Get ''k'')
      (\<lparr>base_url = ''http://h'', api_key = ''s'', headers = []\<rparr>, [])) =
     Inl (HPKV \<lparr>kind = HPKVInternalError, message = JStr ''Invalid response format from server'',
                exc_status_code = 200, response_data = JObj [(''key'', JStr ''k'')]\<rparr>)
   \<and> fst (sdk_perform
      (\<lambda>req. \<lparr>ok = True, status_code = 200, resp_text = ''{...}'',
               json_call = Some (JObj [(''key'', JStr ''k''), (''value'', JStr ''v'')])\<rparr>)
      (Get ''k'')
      (\<lparr>base_url = ''http://h'', api_key = ''s'', headers = []\<rparr>, [])) =
     Inr (JObj [(''key'', JStr ''k''), (''value'', JStr ''v'')])
   \<and> fst (async_perform
      (\<lambda>req. \<lparr>status = 200, content_length = Some 2, ajson_call = Some (JArr [])\<rparr>)
      (Get ''k'')
      (\<lparr>base_url = ''http://h'', api_key = ''s'', headers = [], session = None\<rparr>,
       \<lparr>created = 0, closed = [], sent = []\<rparr>)) = Inr (JArr [])"
  using sdk_shape_validation
    [where send = "\<lambda>req. \<lparr>ok = True, status_code = 200, resp_text = ''{...}'',
               json_call = Some (JObj [(''key'', JStr ''k'')])\<rparr>"
       and call = "Get ''k''"
       and st = "(\<lparr>base_url = ''http://h'', api_key = ''s'', headers = []\<rparr>, [])"
       and b = "JObj [(''key'', JStr ''k'')]"
       and asend = "\<lambda>req. \<lparr>status = 200, content_length = Some 2, ajson_call = Some (JArr [])\<rparr>"
       and ast = "(\<lparr>base_url = ''http://h'', api_key = ''s'', headers = [], session = None\<rparr>,
          \<lparr>created = 0, closed = [], sent = []\<rparr>)"
       and b' = "JArr []"]
    sdk_shape_validation
    [where send = "\<lambda>req. \<lparr>ok = True, status_code = 200, resp_text = ''{...}'',
               json_call = Some (JObj [(''key'', JStr ''k''), (''value'', JStr ''v'')])\<rparr>"
       and call = "Get ''k''"
       and st = "(\<lparr>base_url = ''http://h'', api_key = ''s'', headers = []\<rparr>, [])"
       and b = "JObj [(''key'', JStr ''k''), (''value'', JStr ''v'')]"]
  by (simp add: response_to_def)

text \<open>
  C3. On a failing status the classified exception is raised before the shape of the
  body is looked at. Every method does leave through \<open>_handle_errors\<close> then
  (\<open>sdk_result_failing\<close>), but \<open>_handle_errors\<close> does not always raise the classified
  exception: \<open>set\<close> of the SDK client, answered with status 500 and the body
  \<open>["error"]\<close>, ends in a \<open>TypeError\<close>.
\<close>

theorem sdk_set_list_body_type_error:
  "fst (sdk_perform
      (\<lambda>req. \<lparr>ok = False, status_code = 500, resp_text = ''[...]'',
               json_call = Some (JArr [JStr ''error''])\<rparr>)
      (Set ''k'' (JStr ''v'') False)
      (\<lparr>base_url = ''http://h'', api_key = ''s'', headers = []\<rparr>, [])) = Inl TypeError"
  by (simp add: sdk_perform_fst response_to_def sdk_result_failing read_error_data_def
      derive_message_def)

text \<open>
  C4. For every failing response the message of the exception is the \<open>error\<close> field of
  the decoded body when the body is an object with that field, and \<open>HTTP error N\<close>
  otherwise. The three \<open>_handle_errors\<close> do not get that far on a body that decodes to
  a string with \<open>error\<close> inside it: status 500 with the body \<open>"internal error"\<close> leaves
  each of them with a \<open>TypeError\<close>, from \<open>error_data["error"]\<close> on a \<open>str\<close>.
\<close>

theorem handle_errors_string_body_type_error:
  "sdk_handle_errors \<lparr>ok = False, status_code = 500,
                      resp_text = CHR 0x22 # ''internal error'' @ [CHR 0x22],
                      json_call = Some (JStr ''internal error'')\<rparr> = Inl TypeError
   \<and> py_handle_errors \<lparr>ok = False, status_code = 500,
                       resp_text = CHR 0x22 # ''internal error'' @ [CHR 0x22],
                       json_call = Some (JStr ''internal error'')\<rparr> = Inl TypeError
   \<and> async_handle_errors \<lparr>status = 500, content_length = Some 16,
                          ajson_call = Some (JStr ''internal error'')\<rparr> = Inl TypeError"
  by (simp add: sdk_handle_errors_def py_handle_errors_def async_handle_errors_def
      read_error_data_def async_read_error_data_def derive_message_def)

text \<open>
  C5. Each of the three constructors raises \<open>ValueError\<close> if and only if the base
  endpoint or the credential is absent or empty. For two non-empty strings it succeeds
  and stores exactly the headers \<open>Content-Type: application/json\<close> and
  \<open>x-api-key: credential\<close> (the non-blocking one with no session yet). It hands
  nothing to the transport and constructs no session.
\<close>

theorem init_requires_endpoint_and_credential:
  "((\<exists>m. fst (sdk_init b k net) = Inl (ValueError m))
      \<longleftrightarrow> b = None \<or> b = Some [] \<or> k = None \<or> k = Some [])
   \<and> ((\<exists>m. fst (py_init b k net) = Inl (ValueError m))
      \<longleftrightarrow> b = None \<or> b = Some [] \<or> k = None \<or> k = Some [])
   \<and> ((\<exists>m. fst (async_init b k w) = Inl (ValueError m))
      \<longleftrightarrow> b = None \<or> b = Some [] \<or> k = None \<or> k = Some [])
   \<and> (bs \<noteq> [] \<and> ks \<noteq> [] \<longrightarrow>
        fst (sdk_init (Some bs) (Some ks) net) =
          Inr \<lparr>base_url = bs, api_key = ks,
               headers = [(''Content-Type'', ''application/json''), (''x-api-key'', ks)]\<rparr>
        \<and> fst (py_init (Some bs) (Some ks) net) =
          Inr \<lparr>base_url = bs, api_key = ks,
               headers = [(''Content-Type'', ''application/json''), (''x-api-key'', ks)]\<rparr>
        \<and> fst (async_init (Some bs) (Some ks) w) =
          Inr \<lparr>base_url = bs, api_key = ks,
               headers = [(''Content-Type'', ''application/json''), (''x-api-key'', ks)],
               session = None\<rparr>)
   \<and> snd (sdk_init b k net) = net \<and> snd (py_init b k net) = net \<and> snd (async_init b k w) = w"
  by (cases b; cases k) (simp_all add: sdk_init_def py_init_def async_init_def not_given_def given_def)

theorem init_requires_endpoint_and_credential_witness:
  "fst (sdk_init (Some ''http://h'') (Some ''secret'') []) =
     Inr \<lparr>base_url = ''http://h'', api_key = ''secret'',
          headers = [(''Content-Type'', ''application/json''), (''x-api-key'', ''secret'')]\<rparr>
   \<and> (\<exists>m. fst (sdk_init (Some '''') (Some ''secret'') []) = Inl (ValueError m))
   \<and> (\<exists>m. fst (async_init (Some ''http://h'') None \<lparr>created = 0, closed = [], sent = []\<rparr>)
            = Inl (ValueError m))"
  using init_requires_endpoint_and_credential
      [where bs = "''http://h''" and ks = "''secret''" and net = "[]"]
    init_requires_endpoint_and_credential
      [where b = "Some ''''" and k = "Some ''secret''" and net = "[]"]
    init_requires_endpoint_and_credential
      [where b = "Some ''http://h''" and k = None and w = "\<lparr>created = 0, closed = [], sent = []\<rparr>"]
  by simp





text \<open>
  C8. The non-blocking client creates one session on first use and reuses it; entering
  the scope creates or reuses the session and leaving it releases the session, so that
  none the client created stays open. \<open>__aenter__\<close> always constructs a session: after
  a call made before the scope, the session of that call is dropped unclosed, and it is
  still open when the scope has been left.
\<close>

theorem scope_entered_after_a_call_leaks_its_session:
  "unreleased (snd (snd (async_with
      (\<lambda>req. \<lparr>status = 200, content_length = Some 2, ajson_call = Some (JObj [])\<rparr>)
      [Get ''b'']
      (snd (async_perform
         (\<lambda>req. \<lparr>status = 200, content_length = Some 2, ajson_call = Some (JObj [])\<rparr>)
         (Get ''a'')
         (\<lparr>base_url = ''http://h'', api_key = ''s'', headers = [], session = None\<rparr>,
          \<lparr>created = 0, closed = [], sent = []\<rparr>)))))) = [0]"
  by (simp add: async_with_def aenter_def aexit_def async_perform_def get_session_def
      async_result_def async_handle_errors_def unreleased_def Let_def)

text \<open>
  C9. No call changes the configuration. The blocking clients leave the whole client
  object as it was, whether the call returns or raises; the non-blocking client changes
  at most its session field, the endpoint, the credential and the headers staying.
\<close>

theorem calls_leave_configuration_alone:
  "fst (snd (sdk_perform send call st)) = fst st
   \<and> fst (snd (py_perform send call st)) = fst st
   \<and> base_url (fst (snd (async_perform asend call ast))) = base_url (fst ast)
   \<and> api_key (fst (snd (async_perform asend call ast))) = api_key (fst ast)
   \<and> headers (fst (snd (async_perform asend call ast))) = headers (fst ast)
   \<and> fst (snd (async_perform asend call ast))
       = (fst ast)\<lparr>session := session (fst (snd (async_perform asend call ast)))\<rparr>"
  by (simp add: sdk_perform_def py_perform_def async_perform_def get_session_def Let_def
      split: option.splits)

theorem calls_leave_configuration_alone_witness:
  "api_key (fst (snd (async_perform
      (\<lambda>req. \<lparr>status = 200, content_length = Some 2, ajson_call = Some (JObj [])\<rparr>)
      (Get ''a'')
      (\<lparr>base_url = ''http://h'', api_key = ''s'', headers = [], session = None\<rparr>,
       \<lparr>created = 0, closed = [], sent = []\<rparr>)))) = ''s''
   \<and> fst (snd (sdk_perform
      (\<lambda>req. \<lparr>ok = False, status_code = 404, resp_text = [], json_call = None\<rparr>)
      (Delete ''a'')
      (\<lparr>base_url = ''http://h'', api_key = ''s'', headers = []\<rparr>, [])))
     = \<lparr>base_url = ''http://h'', api_key = ''s'', headers = []\<rparr>"
  using calls_leave_configuration_alone
    [where asend = "\<lambda>req. \<lparr>status = 200, content_length = Some 2, ajson_call = Some (JObj [])\<rparr>"
       and call = "Get ''a''"
       and ast = "(\<lparr>base_url = ''http://h'', api_key = ''s'', headers = [], session = None\<rparr>,
          \<lparr>created = 0, closed = [], sent = []\<rparr>)"]
    calls_leave_configuration_alone
    [where send = "\<lambda>req. \<lparr>ok = False, status_code = 404, resp_text = [], json_call = None\<rparr>"
       and call = "Delete ''a''"
       and st = "(\<lparr>base_url = ''http://h'', api_key = ''s'', headers = []\<rparr>, [])"]
  by simp



end
